theory Spec2Isabelle
  imports Complex_Main "HOL-Library.Word" "HOL-Library.AList"
begin

section \<open>Values exchanged with the HTTP layer\<close>

text \<open>
  The handlers of \<^verbatim>\<open>server/main.py\<close> return Python dictionaries that the framework
  serialises as JSON. A dictionary is an association list in insertion order; a key is
  looked up with \<open>map_of\<close> and written with \<open>AList.update\<close>, which replaces the value of
  a key that is already present and appends a new key otherwise, as a Python \<^verbatim>\<open>dict\<close>
  does.
\<close>

datatype json =
    JNull
  | JBool bool
  | JInt int
  | JFloat real
  | JStr string
  | JList "json list"
  | JObj "(string \<times> json) list"

type_synonym dict = "(string \<times> json) list"

text \<open>The name Python prints for the type of a value, as it appears in a \<^verbatim>\<open>TypeError\<close>.\<close>

fun type_name :: "json \<Rightarrow> string" where
  "type_name JNull = ''NoneType''"
| "type_name (JBool _) = ''bool''"
| "type_name (JInt _) = ''int''"
| "type_name (JFloat _) = ''float''"
| "type_name (JStr _) = ''str''"
| "type_name (JList _) = ''list''"
| "type_name (JObj _) = ''dict''"

section \<open>Decimal numerals\<close>

definition digit_char :: "nat \<Rightarrow> char" where
  "digit_char d = ''0123456789'' ! d"

text \<open>\<^verbatim>\<open>str(n)\<close> for a non-negative integer.\<close>

function str_nat :: "nat \<Rightarrow> string" where
  "str_nat n = (if n < 10 then [digit_char n] else str_nat (n div 10) @ [digit_char (n mod 10)])"
  by pat_completeness auto
termination
  by (relation "measure id") auto

declare str_nat.simps [simp del]

section \<open>Exceptions\<close>

text \<open>
  The exception classes that the handlers raise or catch, with the class hierarchy of
  the Python standard library, of \<^verbatim>\<open>openai\<close> and of \<^verbatim>\<open>fastapi\<close>. Every class here derives
  from \<^verbatim>\<open>Exception\<close>; \<open>mro\<close> lists a class followed by its ancestors, so that
  \<^verbatim>\<open>except C\<close> catches exactly the exceptions \<open>e\<close> with \<open>isinstance e C\<close>.
\<close>

datatype exc_class =
    C_Exception
  | C_HTTPException
  | C_OpenAIError
  | C_APIError
  | C_APIStatusError
  | C_APIConnectionError
  | C_AuthenticationError
  | C_RateLimitError
  | C_LookupError
  | C_IndexError
  | C_TypeError
  | C_OSError
  | C_FileNotFoundError
  | C_PermissionError

fun mro :: "exc_class \<Rightarrow> exc_class list" where
  "mro C_Exception = [C_Exception]"
| "mro C_HTTPException = [C_HTTPException, C_Exception]"
| "mro C_OpenAIError = [C_OpenAIError, C_Exception]"
| "mro C_APIError = [C_APIError, C_OpenAIError, C_Exception]"
| "mro C_APIStatusError = [C_APIStatusError, C_APIError, C_OpenAIError, C_Exception]"
| "mro C_APIConnectionError = [C_APIConnectionError, C_APIError, C_OpenAIError, C_Exception]"
| "mro C_AuthenticationError =
     [C_AuthenticationError, C_APIStatusError, C_APIError, C_OpenAIError, C_Exception]"
| "mro C_RateLimitError =
     [C_RateLimitError, C_APIStatusError, C_APIError, C_OpenAIError, C_Exception]"
| "mro C_LookupError = [C_LookupError, C_Exception]"
| "mro C_IndexError = [C_IndexError, C_LookupError, C_Exception]"
| "mro C_TypeError = [C_TypeError, C_Exception]"
| "mro C_OSError = [C_OSError, C_Exception]"
| "mro C_FileNotFoundError = [C_FileNotFoundError, C_OSError, C_Exception]"
| "mro C_PermissionError = [C_PermissionError, C_OSError, C_Exception]"

text \<open>An exception object: its class and the text \<^verbatim>\<open>str(e)\<close>.\<close>

record exc =
  exc_class :: exc_class
  exc_str :: string

definition isinstance :: "exc \<Rightarrow> exc_class \<Rightarrow> bool" where
  "isinstance e c = (c \<in> set (mro (exc_class e)))"

text \<open>
  \<^verbatim>\<open>HTTPException(status_code, detail)\<close> is what a handler raises to make the framework
  answer with that status and the body \<^verbatim>\<open>{"detail": detail}\<close>.
\<close>

datatype http_error = HTTPException (status_code: nat) (detail: string)

text \<open>
  The same exception seen by an enclosing \<^verbatim>\<open>except\<close> clause: its class is
  \<^verbatim>\<open>HTTPException\<close> and Starlette's \<^verbatim>\<open>__str__\<close> gives \<^verbatim>\<open>f"{status_code}: {detail}"\<close>.
\<close>

definition raised :: "http_error \<Rightarrow> exc" where
  "raised h = \<lparr>exc_class = C_HTTPException,
               exc_str = str_nat (status_code h) @ '': '' @ detail h\<rparr>"

text \<open>
  What a call of a handler does: it returns a body, raises \<^verbatim>\<open>HTTPException\<close>, or lets
  another exception propagate to the framework.
\<close>

datatype outcome = Return json | Raise http_error | Propagate exc

text \<open>
  The framework's answer: status 200 with the returned body, the status and detail of an
  \<^verbatim>\<open>HTTPException\<close>, and the server-error answer for any other exception.
\<close>

record http_response =
  status :: nat
  body :: json

definition respond :: "outcome \<Rightarrow> http_response" where
  "respond r = (case r of
      Return b \<Rightarrow> \<lparr>status = 200, body = b\<rparr>
    | Raise h \<Rightarrow> \<lparr>status = status_code h, body = JObj [(''detail'', JStr (detail h))]\<rparr>
    | Propagate e \<Rightarrow> \<lparr>status = 500, body = JStr ''Internal Server Error''\<rparr>)"

section \<open>Configuration established when the module is loaded\<close>

text \<open>
  \<^verbatim>\<open>openai_api_key = os.getenv("OPENAI_API_KEY")\<close> and
  \<^verbatim>\<open>openai_client = OpenAI(api_key=openai_api_key) if openai_api_key else None\<close>.
  Neither global is assigned again. \<open>environ\<close> is the process environment after
  \<^verbatim>\<open>load_dotenv()\<close>.
\<close>

datatype OpenAI = OpenAI (api_key: string)

record config =
  openai_api_key :: "string option"
  openai_client :: "OpenAI option"

text \<open>Python truthiness of an optional string: \<^verbatim>\<open>None\<close> and \<^verbatim>\<open>""\<close> are false.\<close>

fun truthy :: "string option \<Rightarrow> bool" where
  "truthy None = False"
| "truthy (Some s) = (s \<noteq> [])"

definition startup :: "(string \<Rightarrow> string option) \<Rightarrow> config" where
  "startup environ =
     (let key = environ ''OPENAI_API_KEY''
      in \<lparr>openai_api_key = key,
          openai_client = (if truthy key then Some (OpenAI (the key)) else None)\<rparr>)"

definition PDF_FILE_PATH :: string where
  "PDF_FILE_PATH = ''document.pdf''"

section \<open>The chat endpoint\<close>

record ChatMessage =
  role :: string
  content :: string

record ChatRequest =
  messages :: "ChatMessage list"
  model :: string
  max_tokens :: int
  temperature :: real

text \<open>The keyword arguments of \<^verbatim>\<open>openai_client.chat.completions.create\<close>.\<close>

record create_kwargs =
  kw_model :: string
  kw_messages :: "dict list"
  kw_max_tokens :: int
  kw_temperature :: real

text \<open>
  The part of the completion object that the handler reads. The content of a choice's
  message is \<^verbatim>\<open>Optional[str]\<close> in the client library: \<open>None\<close> is Python's \<^verbatim>\<open>None\<close>.
\<close>

datatype Choice = Choice (message_content: "string option")

text \<open>The JSON value of an optional string: \<^verbatim>\<open>None\<close> is serialised as \<^verbatim>\<open>null\<close>.\<close>

fun optional_str :: "string option \<Rightarrow> json" where
  "optional_str None = JNull"
| "optional_str (Some text) = JStr text"

datatype ChatCompletion = ChatCompletion (choices: "Choice list")

text \<open>
  The remote completion service, as the client's \<^verbatim>\<open>create\<close> method: it returns a
  completion or raises.
\<close>

type_synonym completions_create = "OpenAI \<Rightarrow> create_kwargs \<Rightarrow> exc + ChatCompletion"

text \<open>\<^verbatim>\<open>xs[0]\<close>: the first element, or \<^verbatim>\<open>IndexError\<close> on an empty list.\<close>

definition getitem0 :: "'a list \<Rightarrow> exc + 'a" where
  "getitem0 xs = (case xs of
      [] \<Rightarrow> Inl \<lparr>exc_class = C_IndexError, exc_str = ''list index out of range''\<rparr>
    | x # _ \<Rightarrow> Inr x)"

text \<open>
  The \<^verbatim>\<open>try\<close> block of \<^verbatim>\<open>chat_with_openai\<close> is modelled in two parts. Both return the
  list of the remote calls made, in order, and the value returned or the exception
  raised inside the block. \<open>chat_call\<close> is the part after the two configuration checks.
\<close>

definition chat_kwargs :: "ChatRequest \<Rightarrow> create_kwargs" where
  "chat_kwargs chat_request =
     \<lparr>kw_model = model chat_request,
      kw_messages = map (\<lambda>msg. [(''role'', JStr (role msg)), (''content'', JStr (content msg))])
                        (messages chat_request),
      kw_max_tokens = max_tokens chat_request,
      kw_temperature = temperature chat_request\<rparr>"

definition chat_call :: "OpenAI \<Rightarrow> completions_create \<Rightarrow> ChatRequest
    \<Rightarrow> create_kwargs list \<times> (exc + json)" where
  "chat_call client create chat_request =
     ([chat_kwargs chat_request],
      (case create client (chat_kwargs chat_request) of
         Inl e \<Rightarrow> Inl e
       | Inr response \<Rightarrow>
           (case getitem0 (choices response) of
              Inl e \<Rightarrow> Inl e
            | Inr c \<Rightarrow> Inr (JObj [(''response'', optional_str (message_content c))]))))"

definition chat_try :: "config \<Rightarrow> completions_create \<Rightarrow> ChatRequest
    \<Rightarrow> create_kwargs list \<times> (exc + json)" where
  "chat_try cfg create chat_request =
     (if \<not> truthy (openai_api_key cfg)
      then ([], Inl (raised (HTTPException 500 ''OpenAI API key not configured'')))
      else (case openai_client cfg of
              None \<Rightarrow> ([], Inl (raised (HTTPException 500 ''OpenAI client not initialized'')))
            | Some client \<Rightarrow> chat_call client create chat_request))"

text \<open>The \<^verbatim>\<open>except\<close> clauses of \<^verbatim>\<open>chat_with_openai\<close>, tried in the order of the source.\<close>

definition chat_except :: "exc \<Rightarrow> outcome" where
  "chat_except e =
     (if isinstance e C_AuthenticationError
        then Raise (HTTPException 401 ''Invalid OpenAI API key'')
      else if isinstance e C_RateLimitError
        then Raise (HTTPException 429 ''OpenAI API rate limit exceeded'')
      else if isinstance e C_APIError
        then Raise (HTTPException 500 (''OpenAI API error: '' @ exc_str e))
      else if isinstance e C_Exception
        then Raise (HTTPException 500 (''Error processing chat request: '' @ exc_str e))
      else Propagate e)"

definition chat_with_openai :: "config \<Rightarrow> completions_create \<Rightarrow> ChatRequest
    \<Rightarrow> create_kwargs list \<times> outcome" where
  "chat_with_openai cfg create chat_request =
     (case chat_try cfg create chat_request of
        (calls, Inr b) \<Rightarrow> (calls, Return b)
      | (calls, Inl e) \<Rightarrow> (calls, chat_except e))"

section \<open>The operating system as the handlers see it\<close>

type_synonym byte = "8 word"

record datetime =
  year :: nat
  month :: nat
  day :: nat
  hour :: nat
  minute :: nat
  second :: nat
  microsecond :: nat

text \<open>
  \<open>getenv\<close> is \<^verbatim>\<open>os.getenv\<close>, \<open>path_exists\<close> is \<^verbatim>\<open>os.path.exists\<close>, \<open>read_file\<close> is
  \<^verbatim>\<open>open(path, 'rb')\<close> followed by \<^verbatim>\<open>read()\<close>, and \<open>now\<close> is \<^verbatim>\<open>datetime.now()\<close>. The
  existence probe and the read are separate fields: the file may vanish between them.
\<close>

record env =
  getenv :: "string \<Rightarrow> string option"
  path_exists :: "string \<Rightarrow> bool"
  read_file :: "string \<Rightarrow> exc + byte list"
  now :: datetime

section \<open>Base64 (RFC 4648, standard alphabet, with padding)\<close>

definition b64_alphabet :: string where
  "b64_alphabet = ''ABCDEFGHIJKLMNOPQRSTUVWXYZabcdefghijklmnopqrstuvwxyz0123456789+/''"

definition b64_char :: "nat \<Rightarrow> char" where
  "b64_char i = b64_alphabet ! i"

definition b64_index :: "char \<Rightarrow> nat option" where
  "b64_index c = map_of (zip b64_alphabet [0..<64]) c"

text \<open>
  \<^verbatim>\<open>base64.b64encode\<close>: each group of three bytes is read as a 24-bit number and written
  as four 6-bit digits; a final group of one or two bytes is filled with zero bits to a
  whole number of digits and padded with \<^verbatim>\<open>=\<close>. The result is ASCII, so
  \<^verbatim>\<open>.decode('utf-8')\<close> gives the same characters as text.
\<close>

fun b64encode :: "byte list \<Rightarrow> string" where
  "b64encode [] = []"
| "b64encode [a] =
     (let n = unat a * 16
      in [b64_char (n div 64), b64_char (n mod 64), CHR ''='', CHR ''=''])"
| "b64encode [a, b] =
     (let n = (unat a * 256 + unat b) * 4
      in [b64_char (n div 4096), b64_char (n div 64 mod 64), b64_char (n mod 64), CHR ''=''])"
| "b64encode (a # b # c # rest) =
     (let n = unat a * 65536 + unat b * 256 + unat c
      in [b64_char (n div 262144), b64_char (n div 4096 mod 64),
          b64_char (n div 64 mod 64), b64_char (n mod 64)] @ b64encode rest)"

text \<open>
  The decoder of RFC 4648: groups of four characters, padding only in the last group.
  \<open>None\<close> is a malformed input.
\<close>

definition b64decode_last :: "char \<Rightarrow> char \<Rightarrow> char \<Rightarrow> byte list option" where
  "b64decode_last c1 c2 c3 =
     (case (b64_index c1, b64_index c2) of
        (Some i1, Some i2) \<Rightarrow>
          (if c3 = CHR ''='' then Some [of_nat ((i1 * 64 + i2) div 16)]
           else (case b64_index c3 of
                   Some i3 \<Rightarrow>
                     (let n = ((i1 * 64 + i2) * 64 + i3) div 4
                      in Some [of_nat (n div 256), of_nat (n mod 256)])
                 | None \<Rightarrow> None))
      | _ \<Rightarrow> None)"

definition b64decode_group :: "char \<Rightarrow> char \<Rightarrow> char \<Rightarrow> char \<Rightarrow> byte list option" where
  "b64decode_group c1 c2 c3 c4 =
     (case (b64_index c1, b64_index c2, b64_index c3, b64_index c4) of
        (Some i1, Some i2, Some i3, Some i4) \<Rightarrow>
          (let n = ((i1 * 64 + i2) * 64 + i3) * 64 + i4
           in Some [of_nat (n div 65536), of_nat (n div 256 mod 256), of_nat (n mod 256)])
      | _ \<Rightarrow> None)"

fun b64decode :: "string \<Rightarrow> byte list option" where
  "b64decode [] = Some []"
| "b64decode (c1 # c2 # c3 # c4 # rest) =
     (if rest = [] \<and> c4 = CHR ''='' then b64decode_last c1 c2 c3
      else (case b64decode_group c1 c2 c3 c4 of
              None \<Rightarrow> None
            | Some bs \<Rightarrow> (case b64decode rest of None \<Rightarrow> None | Some tl_bytes \<Rightarrow> Some (bs @ tl_bytes))))"
| "b64decode _ = None"

section \<open>The PDF endpoint\<close>

text \<open>The \<^verbatim>\<open>try\<close> block of \<^verbatim>\<open>get_pdf_base64\<close>.\<close>

definition pdf_try :: "env \<Rightarrow> exc + json" where
  "pdf_try e =
     (if \<not> path_exists e PDF_FILE_PATH
      then Inl (raised (HTTPException 404
                 (''PDF file '' @ [CHR 0x27] @ PDF_FILE_PATH @ [CHR 0x27] @ '' not found'')))
      else (case read_file e PDF_FILE_PATH of
              Inl err \<Rightarrow> Inl err
            | Inr pdf_content \<Rightarrow>
                Inr (JObj [(''success'', JBool True), (''data'', JStr (b64encode pdf_content))])))"

definition get_pdf_base64 :: "env \<Rightarrow> outcome" where
  "get_pdf_base64 e =
     (case pdf_try e of
        Inr b \<Rightarrow> Return b
      | Inl err \<Rightarrow>
          (if isinstance err C_Exception
           then Raise (HTTPException 500 (''Error processing PDF file: '' @ exc_str err))
           else Propagate err))"

section \<open>The user endpoint\<close>

text \<open>
  \<^verbatim>\<open>DEFAULT_USER_PROFILE\<close>, \<^verbatim>\<open>SUGGESTED_ACTIONS_DATA\<close> and \<^verbatim>\<open>DOCUMENTS_DATA\<close> are imported
  from \<^verbatim>\<open>data/user_data.py\<close>; they are parameters here. The \<^verbatim>\<open>try\<close> block builds
  \<^verbatim>\<open>{**DEFAULT_USER_PROFILE, "suggestedActions": ..., "documents": ...}\<close>: unpacking a
  value that is not a mapping raises \<^verbatim>\<open>TypeError\<close>, and a key written twice keeps the
  later value.
\<close>

definition user_try :: "json \<Rightarrow> json \<Rightarrow> json \<Rightarrow> exc + json" where
  "user_try DEFAULT_USER_PROFILE SUGGESTED_ACTIONS_DATA DOCUMENTS_DATA =
     (case DEFAULT_USER_PROFILE of
        JObj profile \<Rightarrow>
          (let user_data = AList.update ''documents'' DOCUMENTS_DATA
                             (AList.update ''suggestedActions'' SUGGESTED_ACTIONS_DATA profile)
           in Inr (JObj [(''success'', JBool True), (''data'', JObj user_data)]))
      | other \<Rightarrow>
          Inl \<lparr>exc_class = C_TypeError,
               exc_str = [CHR 0x27] @ type_name other @ [CHR 0x27] @ '' object is not a mapping''\<rparr>)"

definition get_user_data :: "json \<Rightarrow> json \<Rightarrow> json \<Rightarrow> outcome" where
  "get_user_data DEFAULT_USER_PROFILE SUGGESTED_ACTIONS_DATA DOCUMENTS_DATA =
     (case user_try DEFAULT_USER_PROFILE SUGGESTED_ACTIONS_DATA DOCUMENTS_DATA of
        Inr b \<Rightarrow> Return b
      | Inl err \<Rightarrow>
          (if isinstance err C_Exception
           then Raise (HTTPException 500 (''Error loading user data: '' @ exc_str err))
           else Propagate err))"

section \<open>The health check\<close>

text \<open>The values a \<^verbatim>\<open>datetime\<close> object can hold.\<close>

definition is_leap :: "nat \<Rightarrow> bool" where
  "is_leap y = (y mod 4 = 0 \<and> (y mod 100 \<noteq> 0 \<or> y mod 400 = 0))"

definition days_in_month :: "nat \<Rightarrow> nat \<Rightarrow> nat" where
  "days_in_month y m =
     (if m = 2 then (if is_leap y then 29 else 28)
      else if m = 4 \<or> m = 6 \<or> m = 9 \<or> m = 11 then 30 else 31)"

definition valid_datetime :: "datetime \<Rightarrow> bool" where
  "valid_datetime dt =
     (1 \<le> year dt \<and> year dt \<le> 9999 \<and> 1 \<le> month dt \<and> month dt \<le> 12 \<and>
      1 \<le> day dt \<and> day dt \<le> days_in_month (year dt) (month dt) \<and>
      hour dt < 24 \<and> minute dt < 60 \<and> second dt < 60 \<and> microsecond dt < 1000000)"

text \<open>\<^verbatim>\<open>"%0wd" % n\<close>: decimal digits, filled with zeros on the left to width \<open>w\<close>.\<close>

definition zfill :: "nat \<Rightarrow> nat \<Rightarrow> string" where
  "zfill w n = replicate (w - length (str_nat n)) CHR ''0'' @ str_nat n"

text \<open>
  \<^verbatim>\<open>datetime.isoformat()\<close> of a naive datetime: \<^verbatim>\<open>YYYY-MM-DDTHH:MM:SS\<close>, followed by
  \<^verbatim>\<open>.ffffff\<close> when the microsecond is not zero.
\<close>

definition isoformat :: "datetime \<Rightarrow> string" where
  "isoformat dt =
     zfill 4 (year dt) @ ''-'' @ zfill 2 (month dt) @ ''-'' @ zfill 2 (day dt) @ ''T'' @
     zfill 2 (hour dt) @ '':'' @ zfill 2 (minute dt) @ '':'' @ zfill 2 (second dt) @
     (if microsecond dt = 0 then [] else ''.'' @ zfill 6 (microsecond dt))"

text \<open>
  A reader of the ISO 8601 extended format for a local date and time, with an optional
  decimal fraction of the second (read to the microsecond). \<open>None\<close> is a string that is
  not such a timestamp.
\<close>

definition is_digit :: "char \<Rightarrow> bool" where
  "is_digit c = (c \<in> set ''0123456789'')"

definition digit_value :: "char \<Rightarrow> nat" where
  "digit_value c = of_char c - 48"

definition read_nat :: "string \<Rightarrow> nat option" where
  "read_nat s =
     (if s \<noteq> [] \<and> list_all is_digit s
      then Some (foldl (\<lambda>acc c. acc * 10 + digit_value c) 0 s) else None)"

definition read_fraction :: "string \<Rightarrow> nat option" where
  "read_fraction s =
     (case s of
        [] \<Rightarrow> Some 0
      | c # ds \<Rightarrow>
          (if c = CHR ''.'' \<and> ds \<noteq> [] \<and> list_all is_digit ds
           then read_nat (take 6 (ds @ ''000000'')) else None))"

definition parse_iso8601 :: "string \<Rightarrow> datetime option" where
  "parse_iso8601 s =
     (if 19 \<le> length s \<and> s ! 4 = CHR ''-'' \<and> s ! 7 = CHR ''-'' \<and> s ! 10 = CHR ''T'' \<and>
         s ! 13 = CHR '':'' \<and> s ! 16 = CHR '':''
      then (case (read_nat (take 4 s), read_nat (take 2 (drop 5 s)),
                  read_nat (take 2 (drop 8 s)), read_nat (take 2 (drop 11 s)),
                  read_nat (take 2 (drop 14 s)), read_nat (take 2 (drop 17 s)),
                  read_fraction (drop 19 s)) of
              (Some y, Some mo, Some d, Some h, Some mi, Some se, Some us) \<Rightarrow>
                (let dt = \<lparr>year = y, month = mo, day = d, hour = h, minute = mi,
                           second = se, microsecond = us\<rparr>
                 in if valid_datetime dt then Some dt else None)
            | _ \<Rightarrow> None)
      else None)"

text \<open>\<^verbatim>\<open>health_check\<close> has no \<^verbatim>\<open>try\<close> block and none of its calls raises.\<close>

definition health_check :: "env \<Rightarrow> config \<Rightarrow> outcome" where
  "health_check e cfg =
     Return (JObj
       [(''success'', JBool True),
        (''message'', JStr ''MayaCode Backend API is running''),
        (''timestamp'', JStr (isoformat (now e))),
        (''version'', JStr (case getenv e ''API_VERSION'' of None \<Rightarrow> ''v1'' | Some v \<Rightarrow> v)),
        (''pdf_exists'', JBool (path_exists e PDF_FILE_PATH)),
        (''openai_configured'', JBool (truthy (openai_api_key cfg)))])"

section \<open>Stubs and sample inputs\<close>

text \<open>
  A completion service that answers with the given choice texts, one that answers with
  the given choices, one that raises the given exception, a request with one message,
  a request with three messages and no default value, an environment that holds an API
  key, a time of day, and operating systems without and with the PDF file.
\<close>

definition stub_completion :: "string list \<Rightarrow> completions_create" where
  "stub_completion texts client kwargs =
     Inr (ChatCompletion (map (\<lambda>text. Choice (Some text)) texts))"

definition stub_choices :: "Choice list \<Rightarrow> completions_create" where
  "stub_choices cs client kwargs = Inr (ChatCompletion cs)"

definition stub_failure :: "exc \<Rightarrow> completions_create" where
  "stub_failure e client kwargs = Inl e"

definition hello_request :: "string \<Rightarrow> ChatRequest" where
  "hello_request r =
     \<lparr>messages = [\<lparr>role = r, content = ''Hello''\<rparr>], model = ''gpt-3.5-turbo'',
      max_tokens = 150, temperature = 0.7\<rparr>"

definition briefing_request :: ChatRequest where
  "briefing_request =
     \<lparr>messages = [\<lparr>role = ''system'', content = ''Be brief''\<rparr>,
                  \<lparr>role = ''user'', content = ''Hello''\<rparr>,
                  \<lparr>role = ''assistant'', content = ''Hi''\<rparr>],
      model = ''gpt-4'', max_tokens = 64, temperature = 0.2\<rparr>"

definition env_of_key :: "string \<Rightarrow> string \<Rightarrow> string option" where
  "env_of_key k = [''OPENAI_API_KEY'' \<mapsto> k]"

definition sample_now :: datetime where
  "sample_now = \<lparr>year = 2024, month = 2, day = 29, hour = 7, minute = 5, second = 9,
                  microsecond = 1234\<rparr>"

definition missing_file_env :: env where
  "missing_file_env =
     \<lparr>getenv = (\<lambda>name. None), path_exists = (\<lambda>path. False),
      read_file = (\<lambda>path. Inl \<lparr>exc_class = C_FileNotFoundError,
        exc_str = ''[Errno 2] No such file or directory''\<rparr>),
      now = sample_now\<rparr>"

definition file_env :: "byte list \<Rightarrow> env" where
  "file_env bytes =
     \<lparr>getenv = (\<lambda>name. None), path_exists = (\<lambda>path. path = PDF_FILE_PATH),
      read_file = (\<lambda>path. if path = PDF_FILE_PATH then Inr bytes
        else Inl \<lparr>exc_class = C_FileNotFoundError,
          exc_str = ''[Errno 2] No such file or directory''\<rparr>),
      now = sample_now\<rparr>"

section \<open>Base64 decoding inverts encoding\<close>

lemma b64_alphabet_distinct: "distinct b64_alphabet"
  by (simp add: b64_alphabet_def)

lemma b64_alphabet_length: "length b64_alphabet = 64"
  by (simp add: b64_alphabet_def)

lemma b64_index_char: "i < 64 \<Longrightarrow> b64_index (b64_char i) = Some i"
  unfolding b64_index_def b64_char_def
  using map_of_zip_nth [of b64_alphabet "[0..<64]" i]
  by (simp add: b64_alphabet_distinct b64_alphabet_length)

lemma b64_char_not_pad: "i < 64 \<Longrightarrow> b64_char i \<noteq> CHR ''=''"
proof -
  assume "i < 64"
  then have "b64_char i \<in> set b64_alphabet"
    by (simp add: b64_char_def b64_alphabet_length)
  moreover have "CHR ''='' \<notin> set b64_alphabet"
    by (simp add: b64_alphabet_def)
  ultimately show ?thesis by metis
qed

lemma unat_byte_less: "unat (a :: byte) < 256"
proof -
  have "unat a < 2 ^ LENGTH(8)" by (rule unsigned_less)
  then show ?thesis by simp
qed

lemma rebuild2: "(n::nat) div 64 * 64 + n mod 64 = n"
  by simp

lemma rebuild3: "((n::nat) div 4096 * 64 + n div 64 mod 64) * 64 + n mod 64 = n"
proof -
  have "n div 4096 = n div 64 div 64"
    by (simp add: div_mult2_eq [symmetric])
  then have "n div 4096 * 64 + n div 64 mod 64 = n div 64"
    by simp
  then show ?thesis by simp
qed

lemma rebuild4:
  "(((n::nat) div 262144 * 64 + n div 4096 mod 64) * 64 + n div 64 mod 64) * 64 + n mod 64 = n"
proof -
  have "n div 262144 = n div 64 div 4096"
    by (simp add: div_mult2_eq [symmetric])
  moreover have "n div 4096 mod 64 = n div 64 div 64 mod 64"
    by (simp add: div_mult2_eq [symmetric])
  ultimately have "(n div 262144 * 64 + n div 4096 mod 64) * 64 + n div 64 mod 64 = n div 64"
    using rebuild3 [of "n div 64"] by simp
  then show ?thesis by simp
qed

lemma split_div: "(r::nat) < m \<Longrightarrow> (q * m + r) div m = q"
  by simp

lemma split_mod: "(r::nat) < m \<Longrightarrow> (q * m + r) mod m = r"
  by simp

lemma bytes3:
  fixes a b c :: nat
  assumes "a < 256" "b < 256" "c < 256"
  shows "(a * 65536 + b * 256 + c) div 65536 = a"
    and "(a * 65536 + b * 256 + c) div 256 mod 256 = b"
    and "(a * 65536 + b * 256 + c) mod 256 = c"
    and "a * 65536 + b * 256 + c < 16777216"
proof -
  have e: "a * 65536 + b * 256 + c = (a * 256 + b) * 256 + c"
    by simp
  show "(a * 65536 + b * 256 + c) div 65536 = a"
    using assms by simp
  have "(a * 65536 + b * 256 + c) div 256 = ((a * 256 + b) * 256 + c) div 256"
    by (simp only: e)
  also have "\<dots> = a * 256 + b"
    using assms(3) by (rule split_div)
  finally have d: "(a * 65536 + b * 256 + c) div 256 = a * 256 + b" .
  show "(a * 65536 + b * 256 + c) div 256 mod 256 = b"
    unfolding d using assms(2) by (rule split_mod)
  have "(a * 65536 + b * 256 + c) mod 256 = ((a * 256 + b) * 256 + c) mod 256"
    by (simp only: e)
  also have "\<dots> = c"
    using assms(3) by (rule split_mod)
  finally show "(a * 65536 + b * 256 + c) mod 256 = c" .
  show "a * 65536 + b * 256 + c < 16777216"
    using assms by linarith
qed

lemma bytes2:
  fixes a b :: nat
  assumes "a < 256" "b < 256"
  shows "(a * 256 + b) * 4 div 4 div 256 = a"
    and "(a * 256 + b) * 4 div 4 mod 256 = b"
    and "(a * 256 + b) * 4 div 4096 < 64"
  using assms by simp_all

lemma bytes1:
  fixes a :: nat
  assumes "a < 256"
  shows "a * 16 div 16 = a" and "a * 16 div 64 < 64"
  using assms by simp_all


lemma b64decode_group_Some:
  assumes "b64_index c1 = Some i1" "b64_index c2 = Some i2"
    and "b64_index c3 = Some i3" "b64_index c4 = Some i4"
    and "((i1 * 64 + i2) * 64 + i3) * 64 + i4 = n"
  shows "b64decode_group c1 c2 c3 c4 =
           Some [of_nat (n div 65536), of_nat (n div 256 mod 256), of_nat (n mod 256)]"
  using assms(1-4) unfolding b64decode_group_def assms(5) [symmetric] Let_def by simp

lemma b64decode_last_Some1:
  assumes "b64_index c1 = Some i1" "b64_index c2 = Some i2"
    and "i1 * 64 + i2 = n"
  shows "b64decode_last c1 c2 CHR ''='' = Some [of_nat (n div 16)]"
  using assms(1-2) unfolding b64decode_last_def assms(3) [symmetric] by simp

lemma b64decode_last_Some2:
  assumes "b64_index c1 = Some i1" "b64_index c2 = Some i2" "b64_index c3 = Some i3"
    and "c3 \<noteq> CHR ''=''"
    and "(i1 * 64 + i2) * 64 + i3 = n"
  shows "b64decode_last c1 c2 c3 = Some [of_nat (n div 4 div 256), of_nat (n div 4 mod 256)]"
  using assms(1-4) unfolding b64decode_last_def assms(5) [symmetric] Let_def by simp

lemma b64decode_group_encode:
  fixes a b c :: byte
  defines "n \<equiv> unat a * 65536 + unat b * 256 + unat c"
  shows "b64decode_group (b64_char (n div 262144)) (b64_char (n div 4096 mod 64))
           (b64_char (n div 64 mod 64)) (b64_char (n mod 64)) = Some [a, b, c]"
proof -
  have ua: "unat a < 256" and ub: "unat b < 256" and uc: "unat c < 256"
    by (rule unat_byte_less)+
  have n: "n < 16777216"
    unfolding n_def using ua ub uc by (rule bytes3(4))
  have i1: "b64_index (b64_char (n div 262144)) = Some (n div 262144)"
    using n by (intro b64_index_char) simp
  have i2: "b64_index (b64_char (n div 4096 mod 64)) = Some (n div 4096 mod 64)"
    and i3: "b64_index (b64_char (n div 64 mod 64)) = Some (n div 64 mod 64)"
    and i4: "b64_index (b64_char (n mod 64)) = Some (n mod 64)"
    by (intro b64_index_char, simp)+
  have b1: "n div 65536 = unat a" and b2: "n div 256 mod 256 = unat b" and b3: "n mod 256 = unat c"
    unfolding n_def using ua ub uc by (rule bytes3)+
  show ?thesis
    unfolding b64decode_group_Some [OF i1 i2 i3 i4 rebuild4] b1 b2 b3 by simp
qed

lemma b64decode_last_encode1:
  fixes a :: byte
  defines "n \<equiv> unat a * 16"
  shows "b64decode_last (b64_char (n div 64)) (b64_char (n mod 64)) CHR ''='' = Some [a]"
proof -
  have ua: "unat a < 256" by (rule unat_byte_less)
  have i1: "b64_index (b64_char (n div 64)) = Some (n div 64)"
    unfolding n_def using ua by (intro b64_index_char bytes1(2))
  have i2: "b64_index (b64_char (n mod 64)) = Some (n mod 64)"
    by (intro b64_index_char) simp
  have v: "n div 16 = unat a"
    unfolding n_def by simp
  show ?thesis
    unfolding b64decode_last_Some1 [OF i1 i2 rebuild2] v by simp
qed

lemma b64decode_last_encode2:
  fixes a b :: byte
  defines "n \<equiv> (unat a * 256 + unat b) * 4"
  shows "b64decode_last (b64_char (n div 4096)) (b64_char (n div 64 mod 64)) (b64_char (n mod 64))
           = Some [a, b]"
proof -
  have ua: "unat a < 256" and ub: "unat b < 256" by (rule unat_byte_less)+
  have i1: "b64_index (b64_char (n div 4096)) = Some (n div 4096)"
    unfolding n_def using ua ub by (intro b64_index_char bytes2(3))
  have i2: "b64_index (b64_char (n div 64 mod 64)) = Some (n div 64 mod 64)"
    and i3: "b64_index (b64_char (n mod 64)) = Some (n mod 64)"
    by (intro b64_index_char, simp)+
  have b1: "n div 4 div 256 = unat a" and b2: "n div 4 mod 256 = unat b"
    unfolding n_def using ua ub by (rule bytes2)+
  have pad: "b64_char (n mod 64) \<noteq> CHR ''=''"
    by (rule b64_char_not_pad) simp
  show ?thesis
    unfolding b64decode_last_Some2 [OF i1 i2 i3 pad rebuild3] b1 b2 by simp
qed

lemma b64decode_b64encode: "b64decode (b64encode bs) = Some bs"
proof (induction bs rule: b64encode.induct)
  case 1
  show ?case by simp
next
  case (2 a)
  show ?case
    using b64decode_last_encode1 [of a] by (simp add: Let_def)
next
  case (3 a b)
  show ?case
    using b64decode_last_encode2 [of a b] by (simp add: Let_def)
next
  case (4 a b c rest)
  have pad: "b64_char ((unat a * 65536 + unat b * 256 + unat c) mod 64) \<noteq> CHR ''=''"
    by (rule b64_char_not_pad) simp
  show ?case
    using b64decode_group_encode [of a b c] 4 pad by (simp add: Let_def)
qed

section \<open>Decimal numerals are read back\<close>

lemma is_digit_digit_char: "d < 10 \<Longrightarrow> is_digit (digit_char d)"
proof -
  assume "d < 10"
  then have "d \<in> {0, 1, 2, 3, 4, 5, 6, 7, 8, 9}" by auto
  then show ?thesis by (auto simp: is_digit_def digit_char_def)
qed

lemma digit_value_digit_char: "d < 10 \<Longrightarrow> digit_value (digit_char d) = d"
proof -
  assume "d < 10"
  then have "d \<in> {0, 1, 2, 3, 4, 5, 6, 7, 8, 9}" by auto
  then show ?thesis by (auto simp: digit_value_def digit_char_def)
qed

lemma str_nat_digits: "list_all is_digit (str_nat n)"
proof (induction n rule: str_nat.induct)
  case (1 n)
  show ?case
  proof (cases "n < 10")
    case True
    then show ?thesis by (subst str_nat.simps) (simp add: is_digit_digit_char)
  next
    case False
    then show ?thesis using 1 by (subst str_nat.simps) (simp add: is_digit_digit_char)
  qed
qed

lemma str_nat_not_Nil: "str_nat n \<noteq> []"
  by (subst str_nat.simps) simp

lemma str_nat_value: "foldl (\<lambda>acc c. acc * 10 + digit_value c) 0 (str_nat n) = n"
proof (induction n rule: str_nat.induct)
  case (1 n)
  show ?case
  proof (cases "n < 10")
    case True
    then show ?thesis by (subst str_nat.simps) (simp add: digit_value_digit_char)
  next
    case False
    then show ?thesis using 1 by (subst str_nat.simps) (simp add: digit_value_digit_char)
  qed
qed

lemma str_nat_length: "n < 10 ^ k \<Longrightarrow> 0 < k \<Longrightarrow> length (str_nat n) \<le> k"
proof (induction n arbitrary: k rule: str_nat.induct)
  case (1 n)
  show ?case
  proof (cases "n < 10")
    case True
    then show ?thesis using 1(3) by (subst str_nat.simps) simp
  next
    case False
    obtain j where k: "k = Suc j" using 1(3) by (cases k) auto
    have "j \<noteq> 0" using False 1(2) k by (cases j) auto
    moreover have "n div 10 < 10 ^ j" using 1(2) k by (simp add: less_mult_imp_div_less)
    ultimately have "length (str_nat (n div 10)) \<le> j" using 1(1) [OF False, of j] by simp
    then show ?thesis using False k by (subst str_nat.simps) simp
  qed
qed

lemma foldl_zeros:
  "foldl (\<lambda>acc c. acc * 10 + digit_value c) 0 (replicate k CHR ''0'' @ s)
     = foldl (\<lambda>acc c. acc * 10 + digit_value c) 0 s"
  by (induction k) (simp_all add: digit_value_def)

lemma zeros_digits: "list_all is_digit (replicate k CHR ''0'')"
  by (induction k) (simp_all add: is_digit_def)

lemma read_nat_zfill: "n < 10 ^ k \<Longrightarrow> 0 < k \<Longrightarrow> read_nat (zfill k n) = Some n"
  by (simp add: read_nat_def zfill_def foldl_zeros str_nat_value str_nat_not_Nil str_nat_digits
      zeros_digits del: foldl_append)

lemma length_zfill: "n < 10 ^ k \<Longrightarrow> 0 < k \<Longrightarrow> length (zfill k n) = k"
  using str_nat_length [of n k] by (simp add: zfill_def)

lemma zfill_digits: "list_all is_digit (zfill k n)"
  by (simp add: zfill_def zeros_digits str_nat_digits)

section \<open>The chat endpoint: configuration checks, error mapping and success\<close>

lemma isinstance_Exception: "isinstance e C_Exception"
  by (cases "exc_class e") (simp_all add: isinstance_def)

lemma chat_try_configured:
  "truthy (openai_api_key cfg) \<Longrightarrow> openai_client cfg = Some client \<Longrightarrow>
   chat_try cfg create req = chat_call client create req"
  by (simp add: chat_try_def)

lemma chat_with_openai_configured:
  assumes "truthy (openai_api_key cfg)" and "openai_client cfg = Some client"
  shows "chat_with_openai cfg create req =
           ([chat_kwargs req],
            case create client (chat_kwargs req) of
              Inl e \<Rightarrow> chat_except e
            | Inr response \<Rightarrow>
                (case choices response of
                   [] \<Rightarrow> chat_except \<lparr>exc_class = C_IndexError, exc_str = ''list index out of range''\<rparr>
                 | c # _ \<Rightarrow> Return (JObj [(''response'', optional_str (message_content c))])))"
  by (simp add: chat_with_openai_def chat_try_configured [OF assms] chat_call_def getitem0_def
      split: sum.splits list.splits)

lemma chat_no_key:
  "\<not> truthy (openai_api_key cfg) \<Longrightarrow>
   chat_with_openai cfg create req =
     ([], Raise (HTTPException 500
        (''Error processing chat request: 500: OpenAI API key not configured'')))"
  by (simp add: chat_with_openai_def chat_try_def chat_except_def isinstance_def raised_def
      str_nat.simps digit_char_def)

text \<open>
  Claim C2. A chat request made when no API key is configured is answered with status
  500 and the message \<^verbatim>\<open>OpenAI API key not configured\<close>. The handler raises that
  \<^verbatim>\<open>HTTPException\<close> inside its own \<^verbatim>\<open>try\<close> block, where the last clause,
  \<^verbatim>\<open>except Exception\<close>, catches it and raises another one: the status is 500, but the
  message is the text of the first exception behind \<^verbatim>\<open>Error processing chat request: \<close>.
  No remote call is made.
\<close>

theorem chat_no_key_message:
  "chat_with_openai (startup (\<lambda>name. None)) create req =
     ([], Raise (HTTPException 500
        ''Error processing chat request: 500: OpenAI API key not configured''))
   \<and> respond (snd (chat_with_openai (startup (\<lambda>name. None)) create req)) =
     \<lparr>status = 500,
      body = JObj [(''detail'',
               JStr ''Error processing chat request: 500: OpenAI API key not configured'')]\<rparr>"
proof -
  have "\<not> truthy (openai_api_key (startup (\<lambda>name. None)))"
    by (simp add: startup_def)
  then show ?thesis
    by (simp add: chat_no_key respond_def)
qed

text \<open>
  Claim C3, as the code has it. The role of a message is a string that the handler never
  inspects: with a key and a client configured, every request leads to exactly one remote
  call, and each message reaches the remote service with the role it came with.
\<close>

theorem chat_roles_forwarded:
  assumes "truthy (openai_api_key cfg)" and "openai_client cfg = Some client"
  shows "fst (chat_with_openai cfg create req) = [chat_kwargs req] \<and>
         map (\<lambda>d. map_of d ''role'') (kw_messages (chat_kwargs req))
           = map (\<lambda>msg. Some (JStr (role msg))) (messages req)"
  by (simp add: chat_with_openai_configured [OF assms] chat_kwargs_def)

theorem chat_roles_forwarded_witness:
  "truthy (openai_api_key (startup (env_of_key ''sk-test''))) \<and>
   openai_client (startup (env_of_key ''sk-test'')) = Some (OpenAI ''sk-test'') \<and>
   fst (chat_with_openai (startup (env_of_key ''sk-test'')) (stub_completion [''Hi there''])
          (hello_request ''wizard'')) = [chat_kwargs (hello_request ''wizard'')] \<and>
   map (\<lambda>d. map_of d ''role'') (kw_messages (chat_kwargs (hello_request ''wizard'')))
     = [Some (JStr ''wizard'')]"
proof -
  have h1: "truthy (openai_api_key (startup (env_of_key ''sk-test'')))"
    by (simp add: startup_def env_of_key_def)
  have h2: "openai_client (startup (env_of_key ''sk-test'')) = Some (OpenAI ''sk-test'')"
    by (simp add: startup_def env_of_key_def)
  show ?thesis
    using h1 h2 chat_roles_forwarded [OF h1 h2, of "stub_completion [''Hi there'']"
        "hello_request ''wizard''"]
    by (simp add: hello_request_def)
qed

text \<open>
  Claim C3 as stated fails: a request whose only message has the role \<^verbatim>\<open>wizard\<close> is
  passed to the remote service and answered with status 200.
\<close>

theorem chat_role_not_checked_counterexample:
  "role (hd (messages (hello_request ''wizard''))) \<notin> {''user'', ''assistant'', ''system''} \<and>
   fst (chat_with_openai (startup (env_of_key ''sk-test'')) (stub_completion [''Hi there''])
          (hello_request ''wizard''))
     = [\<lparr>kw_model = ''gpt-3.5-turbo'',
         kw_messages = [[(''role'', JStr ''wizard''), (''content'', JStr ''Hello'')]],
         kw_max_tokens = 150, kw_temperature = 0.7\<rparr>] \<and>
   respond (snd (chat_with_openai (startup (env_of_key ''sk-test''))
          (stub_completion [''Hi there'']) (hello_request ''wizard'')))
     = \<lparr>status = 200, body = JObj [(''response'', JStr ''Hi there'')]\<rparr>"
  by (simp add: chat_with_openai_def chat_try_def chat_call_def chat_kwargs_def getitem0_def
      startup_def env_of_key_def stub_completion_def hello_request_def respond_def)

text \<open>
  Claim C4. When the remote call raises, exactly one remote call has been made (there is
  no retry) and the answer is chosen by the class of the exception, in this order:
  \<^verbatim>\<open>AuthenticationError\<close> gives 401 \<^verbatim>\<open>Invalid OpenAI API key\<close>, \<^verbatim>\<open>RateLimitError\<close> gives 429
  \<^verbatim>\<open>OpenAI API rate limit exceeded\<close>, any other \<^verbatim>\<open>APIError\<close> gives 500 with the text of
  the error after \<^verbatim>\<open>OpenAI API error: \<close>, and any other exception gives 500 with its
  text after \<^verbatim>\<open>Error processing chat request: \<close>.
\<close>

theorem chat_error_mapping:
  assumes "truthy (openai_api_key cfg)" and "openai_client cfg = Some client"
    and "create client (chat_kwargs req) = Inl e"
  shows "fst (chat_with_openai cfg create req) = [chat_kwargs req] \<and>
    respond (snd (chat_with_openai cfg create req)) =
      (if exc_class e = C_AuthenticationError
         then \<lparr>status = 401, body = JObj [(''detail'', JStr ''Invalid OpenAI API key'')]\<rparr>
       else if exc_class e = C_RateLimitError
         then \<lparr>status = 429, body = JObj [(''detail'', JStr ''OpenAI API rate limit exceeded'')]\<rparr>
       else if exc_class e \<in> {C_APIError, C_APIStatusError, C_APIConnectionError}
         then \<lparr>status = 500, body = JObj [(''detail'', JStr (''OpenAI API error: '' @ exc_str e))]\<rparr>
       else \<lparr>status = 500,
             body = JObj [(''detail'', JStr (''Error processing chat request: '' @ exc_str e))]\<rparr>)"
  unfolding chat_with_openai_configured [OF assms(1,2)] assms(3)
  by (cases "exc_class e") (simp_all add: chat_except_def isinstance_def respond_def)

theorem chat_error_mapping_witness:
  "truthy (openai_api_key (startup (env_of_key ''sk-test''))) \<and>
   openai_client (startup (env_of_key ''sk-test'')) = Some (OpenAI ''sk-test'') \<and>
   stub_failure \<lparr>exc_class = C_AuthenticationError, exc_str = ''Error code: 401''\<rparr>
     (OpenAI ''sk-test'') (chat_kwargs (hello_request ''user''))
     = Inl \<lparr>exc_class = C_AuthenticationError, exc_str = ''Error code: 401''\<rparr> \<and>
   fst (chat_with_openai (startup (env_of_key ''sk-test''))
      (stub_failure \<lparr>exc_class = C_AuthenticationError, exc_str = ''Error code: 401''\<rparr>)
      (hello_request ''user'')) = [chat_kwargs (hello_request ''user'')] \<and>
   respond (snd (chat_with_openai (startup (env_of_key ''sk-test''))
      (stub_failure \<lparr>exc_class = C_AuthenticationError, exc_str = ''Error code: 401''\<rparr>)
      (hello_request ''user''))) =
    \<lparr>status = 401, body = JObj [(''detail'', JStr ''Invalid OpenAI API key'')]\<rparr>"
proof -
  have h1: "truthy (openai_api_key (startup (env_of_key ''sk-test'')))"
    by (simp add: startup_def env_of_key_def)
  have h2: "openai_client (startup (env_of_key ''sk-test'')) = Some (OpenAI ''sk-test'')"
    by (simp add: startup_def env_of_key_def)
  have h3: "stub_failure \<lparr>exc_class = C_AuthenticationError, exc_str = ''Error code: 401''\<rparr>
     (OpenAI ''sk-test'') (chat_kwargs (hello_request ''user''))
     = Inl \<lparr>exc_class = C_AuthenticationError, exc_str = ''Error code: 401''\<rparr>"
    by (simp add: stub_failure_def)
  show ?thesis
    using h1 h2 h3
      chat_error_mapping [where create = "stub_failure
          \<lparr>exc_class = C_AuthenticationError, exc_str = ''Error code: 401''\<rparr>", OF h1 h2 h3]
    by simp
qed

text \<open>
  Claim C5, as the code has it. With a key and a client configured and a remote call
  that returns at least one choice, the remote service is called once, with the model,
  token limit and temperature of the request and with its messages as role/content
  pairs in the order of the request; the answer has status 200 and its body is exactly
  \<^verbatim>\<open>{"response": content}\<close> with no \<^verbatim>\<open>usage\<close> key, where the content is that of the first
  choice: a string, or \<^verbatim>\<open>null\<close> when the first choice has no content.
\<close>

theorem chat_success:
  assumes "truthy (openai_api_key cfg)" and "openai_client cfg = Some client"
    and "create client (chat_kwargs req) = Inr (ChatCompletion (c # cs))"
  shows "chat_with_openai cfg create req =
           ([chat_kwargs req],
            Return (JObj [(''response'',
              (case message_content c of None \<Rightarrow> JNull | Some text \<Rightarrow> JStr text))])) \<and>
         respond (snd (chat_with_openai cfg create req)) =
           \<lparr>status = 200,
            body = JObj [(''response'',
              (case message_content c of None \<Rightarrow> JNull | Some text \<Rightarrow> JStr text))]\<rparr> \<and>
         map_of [(''response'',
              (case message_content c of None \<Rightarrow> JNull | Some text \<Rightarrow> JStr text))] ''usage''
           = None \<and>
         chat_kwargs req =
           \<lparr>kw_model = model req,
            kw_messages = map (\<lambda>msg. [(''role'', JStr (role msg)), (''content'', JStr (content msg))])
                              (messages req),
            kw_max_tokens = max_tokens req, kw_temperature = temperature req\<rparr>"
  unfolding chat_with_openai_configured [OF assms(1,2)] assms(3)
  by (cases "message_content c") (simp_all add: respond_def chat_kwargs_def)

theorem chat_success_witness:
  "truthy (openai_api_key (startup (env_of_key ''sk-test''))) \<and>
   openai_client (startup (env_of_key ''sk-test'')) = Some (OpenAI ''sk-test'') \<and>
   stub_choices [Choice (Some ''Hi there''), Choice None, Choice (Some ''Howdy'')]
       (OpenAI ''sk-test'') (chat_kwargs briefing_request)
     = Inr (ChatCompletion [Choice (Some ''Hi there''), Choice None, Choice (Some ''Howdy'')]) \<and>
   respond (snd (chat_with_openai (startup (env_of_key ''sk-test''))
       (stub_choices [Choice (Some ''Hi there''), Choice None, Choice (Some ''Howdy'')])
       briefing_request)) =
     \<lparr>status = 200, body = JObj [(''response'', JStr ''Hi there'')]\<rparr> \<and>
   fst (chat_with_openai (startup (env_of_key ''sk-test''))
       (stub_choices [Choice (Some ''Hi there''), Choice None, Choice (Some ''Howdy'')])
       briefing_request) =
     [\<lparr>kw_model = ''gpt-4'',
       kw_messages = [[(''role'', JStr ''system''), (''content'', JStr ''Be brief'')],
                      [(''role'', JStr ''user''), (''content'', JStr ''Hello'')],
                      [(''role'', JStr ''assistant''), (''content'', JStr ''Hi'')]],
       kw_max_tokens = 64, kw_temperature = 0.2\<rparr>]"
proof -
  have h1: "truthy (openai_api_key (startup (env_of_key ''sk-test'')))"
    by (simp add: startup_def env_of_key_def)
  have h2: "openai_client (startup (env_of_key ''sk-test'')) = Some (OpenAI ''sk-test'')"
    by (simp add: startup_def env_of_key_def)
  have h3: "stub_choices [Choice (Some ''Hi there''), Choice None, Choice (Some ''Howdy'')]
       (OpenAI ''sk-test'') (chat_kwargs briefing_request)
     = Inr (ChatCompletion (Choice (Some ''Hi there'') # [Choice None, Choice (Some ''Howdy'')]))"
    by (simp add: stub_choices_def)
  show ?thesis
    using h1 h2 h3
      chat_success [where create = "stub_choices
          [Choice (Some ''Hi there''), Choice None, Choice (Some ''Howdy'')]"
        and c = "Choice (Some ''Hi there'')", OF h1 h2 h3]
    by (simp add: briefing_request_def chat_kwargs_def respond_def)
qed

text \<open>
  Claim C5 as stated fails in two places. A remote call that succeeds with no choices
  is answered with status 500, and one whose first choice has no content is answered
  with status 200 and the body \<^verbatim>\<open>{"response": null}\<close>, where the response is not a string.
\<close>

theorem chat_success_counterexample:
  "stub_choices [] (OpenAI ''sk-test'') (chat_kwargs (hello_request ''user''))
     = Inr (ChatCompletion []) \<and>
   respond (snd (chat_with_openai (startup (env_of_key ''sk-test''))
       (stub_choices []) (hello_request ''user''))) =
     \<lparr>status = 500, body = JObj [(''detail'',
        JStr ''Error processing chat request: list index out of range'')]\<rparr> \<and>
   stub_choices [Choice None] (OpenAI ''sk-test'') (chat_kwargs (hello_request ''user''))
     = Inr (ChatCompletion [Choice None]) \<and>
   respond (snd (chat_with_openai (startup (env_of_key ''sk-test''))
       (stub_choices [Choice None]) (hello_request ''user''))) =
     \<lparr>status = 200, body = JObj [(''response'', JNull)]\<rparr>"
  by (simp add: chat_with_openai_def chat_try_def chat_call_def getitem0_def chat_except_def
      isinstance_def startup_def env_of_key_def stub_choices_def respond_def)

text \<open>
  Claim C9. When the API key is configured, the client built when the module is loaded
  is present, so the handler goes on to the remote call and the branch that raises
  \<^verbatim>\<open>OpenAI client not initialized\<close> is not taken.
\<close>

theorem client_initialized_when_key_configured:
  assumes "truthy (openai_api_key (startup environ))"
  shows "openai_client (startup environ) = Some (OpenAI (the (environ ''OPENAI_API_KEY''))) \<and>
         chat_try (startup environ) create req
           = chat_call (OpenAI (the (environ ''OPENAI_API_KEY''))) create req \<and>
         chat_try (startup environ) create req
           \<noteq> ([], Inl (raised (HTTPException 500 ''OpenAI client not initialized'')))"
proof -
  have c: "openai_client (startup environ) = Some (OpenAI (the (environ ''OPENAI_API_KEY'')))"
    using assms by (simp add: startup_def Let_def)
  have t: "chat_try (startup environ) create req
           = chat_call (OpenAI (the (environ ''OPENAI_API_KEY''))) create req"
    using assms c by (rule chat_try_configured)
  have "fst (chat_call (OpenAI (the (environ ''OPENAI_API_KEY''))) create req) \<noteq> []"
    by (simp add: chat_call_def)
  then show ?thesis using c t by auto
qed

theorem client_initialized_when_key_configured_witness:
  "truthy (openai_api_key (startup (env_of_key ''sk-test''))) \<and>
   openai_client (startup (env_of_key ''sk-test'')) = Some (OpenAI ''sk-test'') \<and>
   chat_try (startup (env_of_key ''sk-test'')) (stub_completion [''Hi there'']) (hello_request ''user'')
     \<noteq> ([], Inl (raised (HTTPException 500 ''OpenAI client not initialized'')))"
proof -
  have h1: "truthy (openai_api_key (startup (env_of_key ''sk-test'')))"
    by (simp add: startup_def env_of_key_def)
  have k: "the (env_of_key ''sk-test'' ''OPENAI_API_KEY'') = ''sk-test''"
    by (simp add: env_of_key_def)
  show ?thesis
    using h1 client_initialized_when_key_configured [OF h1, of "stub_completion [''Hi there'']"
        "hello_request ''user''", unfolded k]
    by blast
qed

text \<open>
  Claim C10. When the remote call returns a completion with no choices, reading the
  first choice raises \<^verbatim>\<open>IndexError\<close>, which the last \<^verbatim>\<open>except\<close> clause turns into
  status 500 with the text of the error in the message. No call of the handler lets an
  exception other than \<^verbatim>\<open>HTTPException\<close> out.
\<close>

theorem chat_empty_choices:
  assumes "truthy (openai_api_key cfg)" and "openai_client cfg = Some client"
    and "create client (chat_kwargs req) = Inr (ChatCompletion [])"
  shows "chat_with_openai cfg create req =
           ([chat_kwargs req],
            Raise (HTTPException 500 ''Error processing chat request: list index out of range'')) \<and>
         respond (snd (chat_with_openai cfg create req)) =
           \<lparr>status = 500, body = JObj [(''detail'',
              JStr ''Error processing chat request: list index out of range'')]\<rparr> \<and>
         (\<forall>cfg' create' req' e'. snd (chat_with_openai cfg' create' req') \<noteq> Propagate e')"
proof -
  have never: "snd (chat_with_openai cfg' create' req') \<noteq> Propagate e'" for cfg' create' req' e'
    by (auto simp: chat_with_openai_def chat_except_def isinstance_Exception
        split: prod.splits sum.splits)
  show ?thesis
    unfolding chat_with_openai_configured [OF assms(1,2)] assms(3)
    using never by (simp add: chat_except_def isinstance_def respond_def)
qed

theorem chat_empty_choices_witness:
  "truthy (openai_api_key (startup (env_of_key ''sk-test''))) \<and>
   openai_client (startup (env_of_key ''sk-test'')) = Some (OpenAI ''sk-test'') \<and>
   stub_completion [] (OpenAI ''sk-test'') (chat_kwargs (hello_request ''user''))
     = Inr (ChatCompletion []) \<and>
   respond (snd (chat_with_openai (startup (env_of_key ''sk-test''))
       (stub_completion []) (hello_request ''user''))) =
     \<lparr>status = 500, body = JObj [(''detail'',
        JStr ''Error processing chat request: list index out of range'')]\<rparr>"
proof -
  have h1: "truthy (openai_api_key (startup (env_of_key ''sk-test'')))"
    by (simp add: startup_def env_of_key_def)
  have h2: "openai_client (startup (env_of_key ''sk-test'')) = Some (OpenAI ''sk-test'')"
    by (simp add: startup_def env_of_key_def)
  have h3: "stub_completion [] (OpenAI ''sk-test'') (chat_kwargs (hello_request ''user''))
     = Inr (ChatCompletion [])"
    by (simp add: stub_completion_def)
  show ?thesis
    using h1 h2 h3 chat_empty_choices [where create = "stub_completion []", OF h1 h2 h3]
    by blast
qed

section \<open>The PDF endpoint: missing file, read failure and round trip\<close>

lemma pdf_missing_file:
  "\<not> path_exists e PDF_FILE_PATH \<Longrightarrow>
   get_pdf_base64 e = Raise (HTTPException 500
     (''Error processing PDF file: 404: PDF file '' @ [CHR 0x27] @ PDF_FILE_PATH @ [CHR 0x27]
        @ '' not found''))"
  by (simp add: get_pdf_base64_def pdf_try_def raised_def isinstance_def str_nat.simps
      digit_char_def)

text \<open>
  Claim C1. When no file exists at the configured path, the answer should have status
  404 and a message that names the path. The handler raises that \<^verbatim>\<open>HTTPException\<close>
  inside its own \<^verbatim>\<open>try\<close> block, where \<^verbatim>\<open>except Exception\<close> catches it and raises
  another one with status 500: the answer names the path, but its status is 500.
\<close>

theorem pdf_missing_file_status:
  "respond (get_pdf_base64 missing_file_env) =
     \<lparr>status = 500,
      body = JObj [(''detail'',
        JStr ''Error processing PDF file: 404: PDF file 'document.pdf' not found'')]\<rparr>"
proof -
  have "\<not> path_exists missing_file_env PDF_FILE_PATH"
    by (simp add: missing_file_env_def)
  then show ?thesis
    by (simp add: pdf_missing_file respond_def PDF_FILE_PATH_def)
qed

text \<open>
  A failure of the read itself is answered with status 500 and the text of the error.
\<close>

lemma pdf_read_failure:
  "path_exists e PDF_FILE_PATH \<Longrightarrow> read_file e PDF_FILE_PATH = Inl err \<Longrightarrow>
   get_pdf_base64 e = Raise (HTTPException 500 (''Error processing PDF file: '' @ exc_str err))"
  by (simp add: get_pdf_base64_def pdf_try_def isinstance_Exception)

text \<open>
  Claim C7. Whenever the PDF endpoint returns, the file was read, and decoding the
  \<^verbatim>\<open>data\<close> field of the body from Base64 gives exactly the bytes that were read.
\<close>

theorem pdf_round_trip:
  assumes "get_pdf_base64 e = Return b"
  shows "\<exists>pdf_content data.
           read_file e PDF_FILE_PATH = Inr pdf_content \<and>
           b = JObj [(''success'', JBool True), (''data'', JStr data)] \<and>
           b64decode data = Some pdf_content"
proof (cases "read_file e PDF_FILE_PATH")
  case (Inl err)
  then have False
    using assms by (simp add: get_pdf_base64_def pdf_try_def isinstance_Exception split: if_splits)
  then show ?thesis ..
next
  case (Inr pdf_content)
  then have "b = JObj [(''success'', JBool True), (''data'', JStr (b64encode pdf_content))]"
    using assms by (simp add: get_pdf_base64_def pdf_try_def isinstance_Exception split: if_splits)
  then show ?thesis
    using Inr b64decode_b64encode [of pdf_content] by blast
qed

theorem pdf_round_trip_witness:
  "get_pdf_base64 (file_env [0x25, 0x50, 0x44, 0x46, 0x2d])
     = Return (JObj [(''success'', JBool True), (''data'', JStr ''JVBERi0='')]) \<and>
   read_file (file_env [0x25, 0x50, 0x44, 0x46, 0x2d]) PDF_FILE_PATH
     = Inr [0x25, 0x50, 0x44, 0x46, 0x2d] \<and>
   b64decode ''JVBERi0='' = Some [0x25, 0x50, 0x44, 0x46, 0x2d]"
proof -
  have h: "get_pdf_base64 (file_env [0x25, 0x50, 0x44, 0x46, 0x2d])
     = Return (JObj [(''success'', JBool True), (''data'', JStr ''JVBERi0='')])"
    by (simp add: get_pdf_base64_def pdf_try_def file_env_def Let_def b64_char_def
        b64_alphabet_def)
  show ?thesis
    using h pdf_round_trip [OF h] by (simp add: file_env_def)
qed

section \<open>The user endpoint: merging the profile with its two collections\<close>




text \<open>A profile that is not a mapping makes the call fail with status 500.\<close>

lemma user_not_mapping:
  "get_user_data (JList []) (JList []) (JList [])
     = Raise (HTTPException 500 ''Error loading user data: 'list' object is not a mapping'')"
  by (simp add: get_user_data_def user_try_def isinstance_def)

section \<open>The health check: the timestamp is read back\<close>

lemma iso_fields:
  fixes rest :: string
  assumes "length y = 4" "length mo = 2" "length d = 2"
    and "length h = 2" "length mi = 2" "length se = 2"
  defines "s \<equiv> y @ ''-'' @ mo @ ''-'' @ d @ ''T'' @ h @ '':'' @ mi @ '':'' @ se @ rest"
  shows "take 4 s = y" and "take 2 (drop 5 s) = mo" and "take 2 (drop 8 s) = d"
    and "take 2 (drop 11 s) = h" and "take 2 (drop 14 s) = mi" and "take 2 (drop 17 s) = se"
    and "drop 19 s = rest"
    and "s ! 4 = CHR ''-''" and "s ! 7 = CHR ''-''" and "s ! 10 = CHR ''T''"
    and "s ! 13 = CHR '':''" and "s ! 16 = CHR '':''" and "19 \<le> length s"
  by (simp_all add: s_def nth_append assms)

lemma read_fraction_isoformat:
  assumes "us < 1000000"
  shows "read_fraction (if us = 0 then [] else ''.'' @ zfill 6 us) = Some us"
proof (cases "us = 0")
  case True
  then show ?thesis by (simp add: read_fraction_def)
next
  case False
  have len: "length (zfill 6 us) = 6"
    using assms by (intro length_zfill) simp_all
  then have ne: "zfill 6 us \<noteq> []" by auto
  have "read_nat (zfill 6 us) = Some us"
    using assms by (intro read_nat_zfill) simp_all
  then show ?thesis
    using False len ne by (simp add: read_fraction_def zfill_digits)
qed

lemma parse_isoformat:
  assumes "valid_datetime dt"
  shows "parse_iso8601 (isoformat dt) = Some dt"
proof -
  have y: "year dt < 10 ^ 4" and mo: "month dt < 10 ^ 2" and hh: "hour dt < 10 ^ 2"
    and mi: "minute dt < 10 ^ 2" and se: "second dt < 10 ^ 2" and us: "microsecond dt < 1000000"
    using assms by (simp_all add: valid_datetime_def)
  have "day dt \<le> 31"
    using assms by (simp add: valid_datetime_def days_in_month_def split: if_splits)
  then have d: "day dt < 10 ^ 2" by simp
  note lens = length_zfill [OF y] length_zfill [OF mo] length_zfill [OF d]
    length_zfill [OF hh] length_zfill [OF mi] length_zfill [OF se]
  note f = iso_fields [of "zfill 4 (year dt)" "zfill 2 (month dt)" "zfill 2 (day dt)"
      "zfill 2 (hour dt)" "zfill 2 (minute dt)" "zfill 2 (second dt)"
      "if microsecond dt = 0 then [] else ''.'' @ zfill 6 (microsecond dt)",
      folded isoformat_def]
  have l4: "length (zfill 4 (year dt)) = 4" using lens(1) by simp
  have l2: "length (zfill 2 (month dt)) = 2" "length (zfill 2 (day dt)) = 2"
    "length (zfill 2 (hour dt)) = 2" "length (zfill 2 (minute dt)) = 2"
    "length (zfill 2 (second dt)) = 2"
    using lens(2-6) by simp_all
  note g = f [OF l4 l2]
  have r: "read_nat (zfill 4 (year dt)) = Some (year dt)"
    "read_nat (zfill 2 (month dt)) = Some (month dt)"
    "read_nat (zfill 2 (day dt)) = Some (day dt)"
    "read_nat (zfill 2 (hour dt)) = Some (hour dt)"
    "read_nat (zfill 2 (minute dt)) = Some (minute dt)"
    "read_nat (zfill 2 (second dt)) = Some (second dt)"
    using y mo d hh mi se by (simp_all add: read_nat_zfill)
  have same: "\<lparr>year = year dt, month = month dt, day = day dt, hour = hour dt,
      minute = minute dt, second = second dt, microsecond = microsecond dt\<rparr> = dt"
    by simp
  show ?thesis
    unfolding parse_iso8601_def g(1-12) r read_fraction_isoformat [OF us]
    using assms g(13) by (simp add: Let_def same)
qed

text \<open>
  Claim C8. The health check always returns, with status 200, and its body holds
  \<^verbatim>\<open>success: true\<close>, a message string, a timestamp that an ISO 8601 reader reads back as
  the time of the call, a version string, and the two booleans \<^verbatim>\<open>pdf_exists\<close> and
  \<^verbatim>\<open>openai_configured\<close>.
\<close>

theorem health_check_response:
  assumes "valid_datetime (now e)"
  shows "\<exists>message timestamp version pdf_exists openai_configured.
    health_check e cfg = Return (JObj
      [(''success'', JBool True), (''message'', JStr message), (''timestamp'', JStr timestamp),
       (''version'', JStr version), (''pdf_exists'', JBool pdf_exists),
       (''openai_configured'', JBool openai_configured)]) \<and>
    parse_iso8601 timestamp = Some (now e) \<and>
    respond (health_check e cfg) = \<lparr>status = 200, body = JObj
      [(''success'', JBool True), (''message'', JStr message), (''timestamp'', JStr timestamp),
       (''version'', JStr version), (''pdf_exists'', JBool pdf_exists),
       (''openai_configured'', JBool openai_configured)]\<rparr>"
  using parse_isoformat [OF assms] by (simp add: health_check_def respond_def)

theorem health_check_response_witness:
  "valid_datetime (now missing_file_env) \<and>
   health_check missing_file_env (startup (env_of_key ''sk-test'')) = Return (JObj
      [(''success'', JBool True), (''message'', JStr ''MayaCode Backend API is running''),
       (''timestamp'', JStr ''2024-02-29T07:05:09.001234''),
       (''version'', JStr ''v1''), (''pdf_exists'', JBool False),
       (''openai_configured'', JBool True)]) \<and>
   parse_iso8601 ''2024-02-29T07:05:09.001234'' = Some (now missing_file_env)"
proof -
  have h: "valid_datetime (now missing_file_env)"
    by (simp add: missing_file_env_def sample_now_def valid_datetime_def days_in_month_def
        is_leap_def)
  have t: "isoformat (now missing_file_env) = ''2024-02-29T07:05:09.001234''"
    by (simp add: missing_file_env_def sample_now_def isoformat_def zfill_def str_nat.simps
        digit_char_def numeral_2_eq_2)
  have v: "health_check missing_file_env (startup (env_of_key ''sk-test'')) = Return (JObj
      [(''success'', JBool True), (''message'', JStr ''MayaCode Backend API is running''),
       (''timestamp'', JStr ''2024-02-29T07:05:09.001234''),
       (''version'', JStr ''v1''), (''pdf_exists'', JBool False),
       (''openai_configured'', JBool True)])"
    unfolding health_check_def t
    by (simp add: missing_file_env_def startup_def env_of_key_def)
  show ?thesis
    using h v health_check_response [OF h, of "startup (env_of_key ''sk-test'')"]
    by auto
qed


end
